theory Spec2Isabelle
  imports Main "HOL-Library.Word" "HOL-Library.Char_ord" "HOL-Library.List_Lexorder"
begin

section \<open>The call-count instrumentation of os\_stats.h\<close>

text \<open>
  The header declares two process-wide tables and two macros, under the build switch
  \<^verbatim>\<open>NATIVE_STATS\<close>:
  \<^verbatim>\<open>
  #ifdef NATIVE_STATS
  int OS_nativeFunctionCallCount[];
  char* OS_nativeFunctionNames[];
  #define OS_NATIVE_ENTER(env, that, func) OS_nativeFunctionCallCount[func]++;
  #define OS_NATIVE_EXIT(env, that, func)
  #else
  #define OS_NATIVE_ENTER(env, that, func)
  #define OS_NATIVE_EXIT(env, that, func)
  #endif
  \<close>
  followed by 285 constants \<^verbatim>\<open>#define <name>_FUNC <index>\<close>.
\<close>

subsection \<open>State\<close>

text \<open>
  A C \<^verbatim>\<open>int\<close> of the Photon target is 32 bits wide. It is a \<open>32 word\<close> here, read
  as a signed value with \<open>sint\<close>; \<open>++\<close> is addition of 1 on the word, so the step
  from \<open>INT_MAX\<close> is the two's-complement one (ISO C leaves the signed overflow undefined;
  the hardware wraps).
\<close>

type_synonym c_int = "32 word"

record os_stats =
  OS_nativeFunctionCallCount :: "c_int list"
  OS_nativeFunctionNames :: "string list"

text \<open>
  The arrays are declared without a size, and C does not check an index: a subscript
  outside the array is undefined behaviour. The model makes it a result of its own.
\<close>

datatype error = OutOfBounds

subsection \<open>The macros\<close>

text \<open>
  The first argument is the build switch: \<open>True\<close> when \<^verbatim>\<open>NATIVE_STATS\<close> is defined.
  \<open>env\<close> and \<open>that\<close> are the JNI environment and receiver the trampoline passes on;
  \<open>func\<close> is the integer the macro is expanded with.
\<close>

definition OS_NATIVE_ENTER ::
  "bool \<Rightarrow> 'env \<Rightarrow> 'that \<Rightarrow> int \<Rightarrow> os_stats \<Rightarrow> error + os_stats" where
  "OS_NATIVE_ENTER native_stats env that func s =
     (if native_stats then
        (if 0 \<le> func \<and> func < int (length (OS_nativeFunctionCallCount s)) then
           Inr (s\<lparr>OS_nativeFunctionCallCount :=
                    (OS_nativeFunctionCallCount s)
                      [nat func := OS_nativeFunctionCallCount s ! nat func + 1]\<rparr>)
         else Inl OutOfBounds)
      else Inr s)"

definition OS_NATIVE_EXIT ::
  "bool \<Rightarrow> 'env \<Rightarrow> 'that \<Rightarrow> int \<Rightarrow> os_stats \<Rightarrow> os_stats" where
  "OS_NATIVE_EXIT native_stats env that func s = (if native_stats then s else s)"

text \<open>
  A run of the instrumentation: \<^verbatim>\<open>OS_NATIVE_ENTER\<close> expanded once for each element
  of a list of \<open>func\<close> arguments, in order, on one thread. It stops at the first
  out-of-range subscript.
\<close>

fun enter_all :: "bool \<Rightarrow> int list \<Rightarrow> os_stats \<Rightarrow> error + os_stats" where
  "enter_all native_stats [] s = Inr s"
| "enter_all native_stats (func # funcs) s =
     (case OS_NATIVE_ENTER native_stats () () func s of
        Inl e \<Rightarrow> Inl e
      | Inr s' \<Rightarrow> enter_all native_stats funcs s')"

subsection \<open>The generated constants\<close>

text \<open>
  The \<^verbatim>\<open>#define\<close> lines of the header, in the order of the file: the macro's name and
  the value it expands to.
\<close>

definition FUNC_constants :: "(string \<times> int) list" where
  "FUNC_constants = [

   (''PfDecomposeStemToID_FUNC'', 0),
   (''PfExtentText__Lorg_eclipse_swt_internal_photon_PhRect_1t_2Lorg_eclipse_swt_internal_photon_PhPoint_1t_2III_FUNC'', 1),
   (''PfExtentText__Lorg_eclipse_swt_internal_photon_PhRect_1t_2Lorg_eclipse_swt_internal_photon_PhPoint_1t_2_3B_3BI_FUNC'', 2),
   (''PfExtentWideText_FUNC'', 3),
   (''PfFontDescription_FUNC'', 4),
   (''PfFontFlags_FUNC'', 5),
   (''PfFontSize_FUNC'', 6),
   (''PfFreeFont_FUNC'', 7),
   (''PfGenerateFontName_FUNC'', 8),
   (''PfLoadMetrics_FUNC'', 9),
   (''PfQueryFontInfo_FUNC'', 10),
   (''PfQueryFonts_FUNC'', 11),
   (''PgAlphaOff_FUNC'', 12),
   (''PgAlphaOn_FUNC'', 13),
   (''PgCreateGC_FUNC'', 14),
   (''PgDestroyGC_FUNC'', 15),
   (''PgDrawArc_FUNC'', 16),
   (''PgDrawArrow_FUNC'', 17),
   (''PgDrawBitmap_FUNC'', 18),
   (''PgDrawEllipse_FUNC'', 19),
   (''PgDrawGradient_FUNC'', 20),
   (''PgDrawILine_FUNC'', 21),
   (''PgDrawIPixel_FUNC'', 22),
   (''PgDrawIRect_FUNC'', 23),
   (''PgDrawImage_FUNC'', 24),
   (''PgDrawMultiTextArea_FUNC'', 25),
   (''PgDrawPhImageRectmx_FUNC'', 26),
   (''PgDrawPolygon_FUNC'', 27),
   (''PgDrawRoundRect_FUNC'', 28),
   (''PgDrawTImage_FUNC'', 29),
   (''PgDrawText_FUNC'', 30),
   (''PgExtentMultiText_FUNC'', 31),
   (''PgFlush_FUNC'', 32),
   (''PgGetVideoMode_FUNC'', 33),
   (''PgGetVideoModeInfo_FUNC'', 34),
   (''PgReadScreen_FUNC'', 35),
   (''PgReadScreenSize_FUNC'', 36),
   (''PgSetAlpha_FUNC'', 37),
   (''PgSetClipping_FUNC'', 38),
   (''PgSetDrawBufferSize_FUNC'', 39),
   (''PgSetDrawMode_FUNC'', 40),
   (''PgSetFillColor_FUNC'', 41),
   (''PgSetFillTransPat_FUNC'', 42),
   (''PgSetFont_FUNC'', 43),
   (''PgSetGC_FUNC'', 44),
   (''PgSetMultiClip_FUNC'', 45),
   (''PgSetPalette_FUNC'', 46),
   (''PgSetRegion_FUNC'', 47),
   (''PgSetStrokeCap_FUNC'', 48),
   (''PgSetStrokeColor_FUNC'', 49),
   (''PgSetStrokeDash_FUNC'', 50),
   (''PgSetStrokeWidth_FUNC'', 51),
   (''PgSetTextColor_FUNC'', 52),
   (''PgSetTextXORColor_FUNC'', 53),
   (''PgSetUserClip_FUNC'', 54),
   (''PgShmemCreate_FUNC'', 55),
   (''PgShmemDestroy_FUNC'', 56),
   (''PhAddMergeTiles_FUNC'', 57),
   (''PhAreaToRect_FUNC'', 58),
   (''PhBlit_FUNC'', 59),
   (''PhClipTilings_FUNC'', 60),
   (''PhClipboardCopy_FUNC'', 61),
   (''PhClipboardCopyString_FUNC'', 62),
   (''PhClipboardPasteFinish_FUNC'', 63),
   (''PhClipboardPasteStart_FUNC'', 64),
   (''PhClipboardPasteString_FUNC'', 65),
   (''PhClipboardPasteType_FUNC'', 66),
   (''PhClipboardPasteTypeN_FUNC'', 67),
   (''PhCoalesceTiles_FUNC'', 68),
   (''PhCopyTiles_FUNC'', 69),
   (''PhCreateImage_FUNC'', 70),
   (''PhDCSetCurrent_FUNC'', 71),
   (''PhDeTranslateTiles_FUNC'', 72),
   (''PhEventNext_FUNC'', 73),
   (''PhEventPeek_FUNC'', 74),
   (''PhFreeTiles_FUNC'', 75),
   (''PhGetData_FUNC'', 76),
   (''PhGetMsgSize_FUNC'', 77),
   (''PhGetRects_FUNC'', 78),
   (''PhGetTile_FUNC'', 79),
   (''PhInitDrag_FUNC'', 80),
   (''PhInputGroup_FUNC'', 81),
   (''PhIntersectTilings_FUNC'', 82),
   (''PhKeyToMb_FUNC'', 83),
   (''PhMakeGhostBitmap_FUNC'', 84),
   (''PhMakeTransBitmap_FUNC'', 85),
   (''PhMergeTiles_FUNC'', 86),
   (''PhMoveCursorAbs_FUNC'', 87),
   (''PhQueryCursor_FUNC'', 88),
   (''PhQueryRids_FUNC'', 89),
   (''PhRectIntersect_FUNC'', 90),
   (''PhRectUnion__II_FUNC'', 91),
   (''PhRectUnion__Lorg_eclipse_swt_internal_photon_PhRect_1t_2Lorg_eclipse_swt_internal_photon_PhRect_1t_2_FUNC'', 92),
   (''PhRectsToTiles_FUNC'', 93),
   (''PhRegionQuery_FUNC'', 94),
   (''PhReleaseImage_FUNC'', 95),
   (''PhSortTiles_FUNC'', 96),
   (''PhTilesToRects_FUNC'', 97),
   (''PhTranslateTiles_FUNC'', 98),
   (''PhWindowQueryVisible_FUNC'', 99),
   (''PiCropImage_FUNC'', 100),
   (''PiDuplicateImage_FUNC'', 101),
   (''PmMemCreateMC_FUNC'', 102),
   (''PmMemFlush_FUNC'', 103),
   (''PmMemReleaseMC_FUNC'', 104),
   (''PmMemStart_FUNC'', 105),
   (''PmMemStop_FUNC'', 106),
   (''PtAddCallback_FUNC'', 107),
   (''PtAddEventHandler_FUNC'', 108),
   (''PtAddFilterCallback_FUNC'', 109),
   (''PtAddHotkeyHandler_FUNC'', 110),
   (''PtAlert_FUNC'', 111),
   (''PtAppAddInput_FUNC'', 112),
   (''PtAppAddWorkProc_FUNC'', 113),
   (''PtAppCreatePulse_FUNC'', 114),
   (''PtAppDeletePulse_FUNC'', 115),
   (''PtAppProcessEvent_FUNC'', 116),
   (''PtAppPulseTrigger_FUNC'', 117),
   (''PtAppRemoveInput_FUNC'', 118),
   (''PtAppRemoveWorkProc_FUNC'', 119),
   (''PtBeep_FUNC'', 120),
   (''PtBlit_FUNC'', 121),
   (''PtBlockAllWindows_FUNC'', 122),
   (''PtBlockWindow_FUNC'', 123),
   (''PtButton_FUNC'', 124),
   (''PtCalcBorder_FUNC'', 125),
   (''PtCalcCanvas_FUNC'', 126),
   (''PtClippedBlit_FUNC'', 127),
   (''PtColorSelect_FUNC'', 128),
   (''PtComboBox_FUNC'', 129),
   (''PtContainer_FUNC'', 130),
   (''PtContainerFindFocus_FUNC'', 131),
   (''PtContainerFocusNext_FUNC'', 132),
   (''PtContainerFocusPrev_FUNC'', 133),
   (''PtContainerGiveFocus_FUNC'', 134),
   (''PtContainerHold_FUNC'', 135),
   (''PtContainerRelease_FUNC'', 136),
   (''PtCreateAppContext_FUNC'', 137),
   (''PtCreateWidget_FUNC'', 138),
   (''PtCreateWidgetClass_FUNC'', 139),
   (''PtDamageExtent_FUNC'', 140),
   (''PtDamageWidget_FUNC'', 141),
   (''PtDestroyWidget_FUNC'', 142),
   (''PtDisjoint_FUNC'', 143),
   (''PtEnter_FUNC'', 144),
   (''PtEventHandler_FUNC'', 145),
   (''PtExtentWidget_FUNC'', 146),
   (''PtExtentWidgetFamily_FUNC'', 147),
   (''PtFileSelection_FUNC'', 148),
   (''PtFindDisjoint_FUNC'', 149),
   (''PtFlush_FUNC'', 150),
   (''PtFontSelection_FUNC'', 151),
   (''PtForwardWindowEvent_FUNC'', 152),
   (''PtFrameSize_FUNC'', 153),
   (''PtGetAbsPosition_FUNC'', 154),
   (''PtGetResources_FUNC'', 155),
   (''PtGlobalFocusNext_FUNC'', 156),
   (''PtGlobalFocusNextContainer_FUNC'', 157),
   (''PtGlobalFocusPrev_FUNC'', 158),
   (''PtGlobalFocusPrevContainer_FUNC'', 159),
   (''PtGroup_FUNC'', 160),
   (''PtHit_FUNC'', 161),
   (''PtHold_FUNC'', 162),
   (''PtInflateBalloon_FUNC'', 163),
   (''PtInit_FUNC'', 164),
   (''PtIsFocused_FUNC'', 165),
   (''PtLabel_FUNC'', 166),
   (''PtLeave_FUNC'', 167),
   (''PtList_FUNC'', 168),
   (''PtListAddItems_FUNC'', 169),
   (''PtListDeleteAllItems_FUNC'', 170),
   (''PtListDeleteItemPos_FUNC'', 171),
   (''PtListGotoPos_FUNC'', 172),
   (''PtListItemPos_FUNC'', 173),
   (''PtListReplaceItemPos_FUNC'', 174),
   (''PtListSelectPos_FUNC'', 175),
   (''PtListUnselectPos_FUNC'', 176),
   (''PtMainLoop_FUNC'', 177),
   (''PtMenu_FUNC'', 178),
   (''PtMenuBar_FUNC'', 179),
   (''PtMenuButton_FUNC'', 180),
   (''PtMultiText_FUNC'', 181),
   (''PtNextTopLevelWidget_FUNC'', 182),
   (''PtPane_FUNC'', 183),
   (''PtPanelGroup_FUNC'', 184),
   (''PtPositionMenu_FUNC'', 185),
   (''PtProgress_FUNC'', 186),
   (''PtReParentWidget_FUNC'', 187),
   (''PtRealizeWidget_FUNC'', 188),
   (''PtRegion_FUNC'', 189),
   (''PtRelease_FUNC'', 190),
   (''PtRemoveCallback_FUNC'', 191),
   (''PtRemoveHotkeyHandler_FUNC'', 192),
   (''PtScrollArea_FUNC'', 193),
   (''PtScrollContainer_FUNC'', 194),
   (''PtScrollbar_FUNC'', 195),
   (''PtSendEventToWidget_FUNC'', 196),
   (''PtSeparator_FUNC'', 197),
   (''PtSetAreaFromWidgetCanvas_FUNC'', 198),
   (''PtSetParentWidget_FUNC'', 199),
   (''PtSetResource_FUNC'', 200),
   (''PtSetResources_FUNC'', 201),
   (''PtSlider_FUNC'', 202),
   (''PtSuperClassDraw_FUNC'', 203),
   (''PtSyncWidget_FUNC'', 204),
   (''PtText_FUNC'', 205),
   (''PtTextGetSelection_FUNC'', 206),
   (''PtTextModifyText__IIIIII_FUNC'', 207),
   (''PtTextModifyText__IIII_3BI_FUNC'', 208),
   (''PtTextSetSelection_FUNC'', 209),
   (''PtTimer_FUNC'', 210),
   (''PtToggleButton_FUNC'', 211),
   (''PtToolbar_FUNC'', 212),
   (''PtUnblockWindows_FUNC'', 213),
   (''PtUnrealizeWidget_FUNC'', 214),
   (''PtValidParent_FUNC'', 215),
   (''PtWebClient_FUNC'', 216),
   (''PtWidgetArea_FUNC'', 217),
   (''PtWidgetBrotherBehind_FUNC'', 218),
   (''PtWidgetBrotherInFront_FUNC'', 219),
   (''PtWidgetCanvas__II_FUNC'', 220),
   (''PtWidgetCanvas__ILorg_eclipse_swt_internal_photon_PhRect_1t_2_FUNC'', 221),
   (''PtWidgetChildBack_FUNC'', 222),
   (''PtWidgetChildFront_FUNC'', 223),
   (''PtWidgetClass_FUNC'', 224),
   (''PtWidgetExtent__II_FUNC'', 225),
   (''PtWidgetExtent__ILorg_eclipse_swt_internal_photon_PhRect_1t_2_FUNC'', 226),
   (''PtWidgetFlags_FUNC'', 227),
   (''PtWidgetInsert_FUNC'', 228),
   (''PtWidgetIsClassMember_FUNC'', 229),
   (''PtWidgetIsRealized_FUNC'', 230),
   (''PtWidgetOffset_FUNC'', 231),
   (''PtWidgetParent_FUNC'', 232),
   (''PtWidgetPreferredSize_FUNC'', 233),
   (''PtWidgetRid_FUNC'', 234),
   (''PtWidgetToBack_FUNC'', 235),
   (''PtWidgetToFront_FUNC'', 236),
   (''PtWindow_FUNC'', 237),
   (''PtWindowFocus_FUNC'', 238),
   (''PtWindowGetState_FUNC'', 239),
   (''PtWindowToBack_FUNC'', 240),
   (''PtWindowToFront_FUNC'', 241),
   (''free_FUNC'', 242),
   (''getenv_FUNC'', 243),
   (''malloc_FUNC'', 244),
   (''memmove__III_FUNC'', 245),
   (''memmove__ILorg_eclipse_swt_internal_photon_PgAlpha_1t_2I_FUNC'', 246),
   (''memmove__ILorg_eclipse_swt_internal_photon_PhArea_1t_2I_FUNC'', 247),
   (''memmove__ILorg_eclipse_swt_internal_photon_PhCursorDef_1t_2I_FUNC'', 248),
   (''memmove__ILorg_eclipse_swt_internal_photon_PhEvent_1t_2I_FUNC'', 249),
   (''memmove__ILorg_eclipse_swt_internal_photon_PhImage_1t_2I_FUNC'', 250),
   (''memmove__ILorg_eclipse_swt_internal_photon_PhPoint_1t_2I_FUNC'', 251),
   (''memmove__ILorg_eclipse_swt_internal_photon_PhPointerEvent_1t_2I_FUNC'', 252),
   (''memmove__ILorg_eclipse_swt_internal_photon_PhRect_1t_2I_FUNC'', 253),
   (''memmove__ILorg_eclipse_swt_internal_photon_PhTile_1t_2I_FUNC'', 254),
   (''memmove__ILorg_eclipse_swt_internal_photon_PtTextCallback_1t_2I_FUNC'', 255),
   (''memmove__ILorg_eclipse_swt_internal_photon_PtWebClientData_1t_2I_FUNC'', 256),
   (''memmove__I_3BI_FUNC'', 257),
   (''memmove__I_3II_FUNC'', 258),
   (''memmove__Lorg_eclipse_swt_internal_photon_FontDetails_2II_FUNC'', 259),
   (''memmove__Lorg_eclipse_swt_internal_photon_PgAlpha_1t_2II_FUNC'', 260),
   (''memmove__Lorg_eclipse_swt_internal_photon_PgMap_1t_2II_FUNC'', 261),
   (''memmove__Lorg_eclipse_swt_internal_photon_PhClipHeader_2II_FUNC'', 262),
   (''memmove__Lorg_eclipse_swt_internal_photon_PhEvent_1t_2II_FUNC'', 263),
   (''memmove__Lorg_eclipse_swt_internal_photon_PhImage_1t_2II_FUNC'', 264),
   (''memmove__Lorg_eclipse_swt_internal_photon_PhKeyEvent_1t_2II_FUNC'', 265),
   (''memmove__Lorg_eclipse_swt_internal_photon_PhPointerEvent_1t_2II_FUNC'', 266),
   (''memmove__Lorg_eclipse_swt_internal_photon_PhRect_1t_2II_FUNC'', 267),
   (''memmove__Lorg_eclipse_swt_internal_photon_PhTile_1t_2II_FUNC'', 268),
   (''memmove__Lorg_eclipse_swt_internal_photon_PhWindowEvent_1t_2II_FUNC'', 269),
   (''memmove__Lorg_eclipse_swt_internal_photon_PtCallbackInfo_1t_2II_FUNC'', 270),
   (''memmove__Lorg_eclipse_swt_internal_photon_PtScrollbarCallback_1t_2II_FUNC'', 271),
   (''memmove__Lorg_eclipse_swt_internal_photon_PtTextCallback_1t_2II_FUNC'', 272),
   (''memmove__Lorg_eclipse_swt_internal_photon_PtWebDataReqCallback_1t_2II_FUNC'', 273),
   (''memmove__Lorg_eclipse_swt_internal_photon_PtWebMetaDataCallback_1t_2II_FUNC'', 274),
   (''memmove__Lorg_eclipse_swt_internal_photon_PtWebStatusCallback_1t_2II_FUNC'', 275),
   (''memmove__Lorg_eclipse_swt_internal_photon_PtWebWindowCallback_1t_2II_FUNC'', 276),
   (''memmove___3BII_FUNC'', 277),
   (''memmove___3BLorg_eclipse_swt_internal_photon_PhClipHeader_2I_FUNC'', 278),
   (''memmove___3III_FUNC'', 279),
   (''memmove___3SII_FUNC'', 280),
   (''memset_FUNC'', 281),
   (''strdup_FUNC'', 282),
   (''strlen_FUNC'', 283),
   (''uname_FUNC'', 284)

  ]"

text \<open>
  Each constant is named after a native entry point, with \<^verbatim>\<open>_FUNC\<close> appended. The
  qualified name of the entry point (the JNI name, with the signature suffix of an
  overloaded one) is the macro's name without these five characters.
\<close>

definition func_name :: "string \<Rightarrow> string" where
  "func_name m = (if drop (length m - 5) m = ''_FUNC'' then take (length m - 5) m else m)"

text \<open>The names of the entry points, listed by increasing identifier.\<close>

definition names_by_identifier :: "string list" where
  "names_by_identifier = map (func_name \<circ> fst) (sort_key snd FUNC_constants)"

text \<open>
  A check of strictly increasing order that compares neighbours only. Strings are
  compared byte by byte (\<open>Char_ord\<close>), lexicographically (\<open>List_Lexorder\<close>), as
  \<^verbatim>\<open>strcmp\<close> does.
\<close>

fun increasing :: "string list \<Rightarrow> bool" where
  "increasing (x # y # zs) = (x < y \<and> increasing (y # zs))"
| "increasing _ = True"

subsection \<open>The tables at process start, the report, the numbering\<close>

text \<open>
  Modelled from the spec: the file that defines the two arrays (os\_stats.c) is not part
  of the sources at hand; the header only declares them. The spec has a name table and a
  counter table of the same length \<open>N\<close>, the counters "initialized to zero at process
  start" (what C does for an array of static storage without an initialiser).
\<close>

definition initial_stats :: "string list \<Rightarrow> os_stats" where
  "initial_stats names =
     \<lparr>OS_nativeFunctionCallCount = replicate (length names) 0,
      OS_nativeFunctionNames = names\<rparr>"

text \<open>
  Modelled from the spec: the reporting routine is not part of the sources at hand.
  The spec: "\<open>report() -> sequence of (name, count)\<close>: produces, for each identifier,
  the pair of its name and current count. Read-only [...] does not reset counts."
  The count is the \<^verbatim>\<open>int\<close> the table holds, so it is read with \<open>sint\<close>.
\<close>

definition report :: "os_stats \<Rightarrow> (string \<times> int) list" where
  "report s = zip (OS_nativeFunctionNames s) (map sint (OS_nativeFunctionCallCount s))"

text \<open>
  \<open>report()[i].count\<close> after a run of \<open>enter\<close> events from the state \<open>s\<close>.
\<close>

definition count_after :: "bool \<Rightarrow> int list \<Rightarrow> os_stats \<Rightarrow> int \<Rightarrow> error + int" where
  "count_after native_stats funcs s i =
     (case enter_all native_stats funcs s of
        Inl e \<Rightarrow> Inl e
      | Inr s' \<Rightarrow>
          if 0 \<le> i \<and> i < int (length (report s')) then Inr (snd (report s' ! nat i))
          else Inl OutOfBounds)"

text \<open>
  Modelled from the spec: the generator that writes the header is not part of the sources
  at hand. The spec: "identifiers are assigned by sorting the full set of native
  entry-point names lexicographically (byte-wise ordering on the qualified name [...])
  and numbering them \<open>0, 1, 2, \<dots>\<close> in that order."
\<close>

definition assign_identifiers :: "string list \<Rightarrow> (string \<times> int) list" where
  "assign_identifiers names =
     (let sorted_names = sort (remdups names)
      in zip sorted_names (map int [0..<length sorted_names]))"


section \<open>Auxiliary facts\<close>

subsection \<open>The table of constants\<close>

lemma FUNC_values: "map snd FUNC_constants = map int [0..<285]"
  by (simp add: FUNC_constants_def upt_rec)

lemma FUNC_length: "length FUNC_constants = 285"
  by (simp add: FUNC_constants_def)

text \<open>Every macro's name ends in \<^verbatim>\<open>_FUNC\<close>, so \<open>func_name\<close> strips it from each.\<close>

lemma FUNC_suffix:
  "list_all (\<lambda>m. drop (length m - 5) m = ''_FUNC'') (map fst FUNC_constants)"
  by (simp add: FUNC_constants_def)

lemma FUNC_nth_value: "k < 285 \<Longrightarrow> snd (FUNC_constants ! k) = int k"
proof -
  assume k: "k < 285"
  then have "snd (FUNC_constants ! k) = map snd FUNC_constants ! k"
    by (simp add: FUNC_length)
  also have "\<dots> = int k"
    using k by (simp only: FUNC_values) (simp del: upt_Suc upt_rec_numeral)
  finally show ?thesis .
qed

lemma FUNC_sorted_by_value: "sort_key snd FUNC_constants = FUNC_constants"
proof -
  have "sorted (map int [0..<285])"
    by (simp add: sorted_map strict_mono_on_def mono_on_def sorted_wrt_map del: upt_Suc upt_rec_numeral)
  then show ?thesis
    by (simp add: sort_key_id_if_sorted FUNC_values)
qed

lemma names_by_identifier_eq:
  "names_by_identifier = map (func_name \<circ> fst) FUNC_constants"
  by (simp add: names_by_identifier_def FUNC_sorted_by_value)

lemma length_names_by_identifier: "length names_by_identifier = 285"
  by (simp add: names_by_identifier_eq FUNC_length)

text \<open>
  Neighbours in increasing order give a strictly sorted list, the order being transitive.
  The check itself runs on the 285 names of the header.
\<close>

lemma increasing_sorted_wrt: "increasing xs \<Longrightarrow> sorted_wrt (<) xs"
proof (induction xs rule: increasing.induct)
  case (1 x y zs)
  then have xy: "x < y" and rest: "sorted_wrt (<) (y # zs)" by simp_all
  from rest have "\<forall>z \<in> set zs. y < z" by simp
  with xy have "\<forall>z \<in> set (y # zs). x < z" by auto
  with rest show ?case by simp
qed simp_all

lemma FUNC_names_increasing: "increasing (map (func_name \<circ> fst) FUNC_constants)"
  by (simp add: FUNC_constants_def func_name_def)

lemma names_sorted_wrt: "sorted_wrt (<) names_by_identifier"
  using FUNC_names_increasing
  by (simp only: names_by_identifier_eq increasing_sorted_wrt)

text \<open>
  The order is that of the entry points' names, not of the macros' names: with
  \<^verbatim>\<open>_FUNC\<close> appended, a name that is a prefix of the next one (constants 33 and 34, for one)
  would come after it, since \<^verbatim>\<open>_\<close> is byte 95 and \<^verbatim>\<open>I\<close> is byte 73.
\<close>

lemma with_suffix_not_sorted: "\<not> sorted_wrt (<) [''PgGetVideoMode_FUNC'', ''PgGetVideoModeInfo_FUNC'']"
  by simp

subsection \<open>The counter as a 32-bit \<^verbatim>\<open>int\<close>\<close>

lemma sint_of_nat_small: "k < 2 ^ 31 \<Longrightarrow> sint (of_nat k :: c_int) = int k"
proof -
  assume "k < 2 ^ 31"
  then have "int k < 2 ^ 31" by (metis of_nat_less_iff of_nat_numeral of_nat_power)
  then have "signed_take_bit 31 (int k) = int k"
    by (intro signed_take_bit_int_eq_self) simp_all
  then show ?thesis by (simp add: signed_of_nat)
qed

lemma sint_incr:
  "sint (c + 1 :: c_int) = (if sint c = 2 ^ 31 - 1 then - (2 ^ 31) else sint c + 1)"
proof -
  have eq: "sint (c + 1) = signed_take_bit 31 (sint c + 1)"
    by (simp add: sint_word_ariths)
  show ?thesis
  proof (cases "sint c = 2 ^ 31 - 1")
    case True
    with eq show ?thesis by simp
  next
    case False
    have "sint c < 2 ^ 31" using sint_lt [of c] by simp
    with False have up: "sint c + 1 < 2 ^ 31" by simp
    have "- (2 ^ 31) \<le> sint c" using sint_ge [of c] by simp
    then have lo: "- (2 ^ 31) \<le> sint c + 1" by simp
    from lo up have "signed_take_bit 31 (sint c + 1) = sint c + 1"
      by (rule signed_take_bit_int_eq_self)
    with eq False show ?thesis by simp
  qed
qed

lemma uint_incr: "uint (c + 1 :: c_int) = (uint c + 1) mod 2 ^ 32"
  by (simp add: uint_word_ariths)

subsection \<open>One expansion, and a run of them\<close>

lemma enter_valid:
  "0 \<le> func \<Longrightarrow> func < int (length (OS_nativeFunctionCallCount s)) \<Longrightarrow>
   OS_NATIVE_ENTER True env that func s =
     Inr (s\<lparr>OS_nativeFunctionCallCount :=
              (OS_nativeFunctionCallCount s)
                [nat func := OS_nativeFunctionCallCount s ! nat func + 1]\<rparr>)"
  by (simp add: OS_NATIVE_ENTER_def)

lemma report_update:
  "report (s\<lparr>OS_nativeFunctionCallCount := (OS_nativeFunctionCallCount s)[k := c]\<rparr>)
     = (report s)[k := (OS_nativeFunctionNames s ! k, sint c)]"
proof -
  let ?ns = "OS_nativeFunctionNames s"
  let ?cs = "map sint (OS_nativeFunctionCallCount s)"
  have "zip ?ns (?cs[k := sint c]) = zip (?ns[k := ?ns ! k]) (?cs[k := sint c])"
    by simp
  also have "\<dots> = (zip ?ns ?cs)[k := (?ns ! k, sint c)]"
    by (rule zip_update)
  finally show ?thesis
    by (simp add: report_def map_update)
qed

lemma count_list_replicate_same: "count_list (replicate k x) x = k"
  by (induction k) simp_all

text \<open>
  After a run of in-range expansions, every counter has grown by the number of times its
  index occurs in the run, in 32-bit arithmetic.
\<close>

lemma enter_all_counts:
  assumes "\<forall>f \<in> set funcs. 0 \<le> f \<and> f < int (length (OS_nativeFunctionCallCount s))"
  shows "enter_all True funcs s =
     Inr (s\<lparr>OS_nativeFunctionCallCount :=
              map (\<lambda>j. OS_nativeFunctionCallCount s ! j + of_nat (count_list funcs (int j)))
                [0..<length (OS_nativeFunctionCallCount s)]\<rparr>)"
  using assms
proof (induction funcs arbitrary: s)
  case Nil
  then show ?case by (simp add: map_nth)
next
  case (Cons f fs)
  let ?cc = "OS_nativeFunctionCallCount s"
  let ?s1 = "s\<lparr>OS_nativeFunctionCallCount := ?cc[nat f := ?cc ! nat f + 1]\<rparr>"
  from Cons.prems have f: "0 \<le> f" "f < int (length ?cc)" by simp_all
  have step: "OS_NATIVE_ENTER True () () f s = Inr ?s1"
    using f by (rule enter_valid)
  have "\<forall>g \<in> set fs. 0 \<le> g \<and> g < int (length (OS_nativeFunctionCallCount ?s1))"
    using Cons.prems by simp
  from Cons.IH [OF this]
  have run: "enter_all True fs ?s1 =
     Inr (?s1\<lparr>OS_nativeFunctionCallCount :=
              map (\<lambda>j. OS_nativeFunctionCallCount ?s1 ! j + of_nat (count_list fs (int j)))
                [0..<length (OS_nativeFunctionCallCount ?s1)]\<rparr>)" .
  have "map (\<lambda>j. ?cc[nat f := ?cc ! nat f + 1] ! j + of_nat (count_list fs (int j))) [0..<length ?cc]
      = map (\<lambda>j. ?cc ! j + of_nat (count_list (f # fs) (int j))) [0..<length ?cc]"
  proof (rule map_cong [OF refl])
    fix j assume "j \<in> set [0..<length ?cc]"
    then have j: "j < length ?cc" by simp
    show "?cc[nat f := ?cc ! nat f + 1] ! j + of_nat (count_list fs (int j))
        = ?cc ! j + of_nat (count_list (f # fs) (int j))"
    proof (cases "j = nat f")
      case True
      with f have "int j = f" by simp
      with True j show ?thesis by simp
    next
      case False
      with f have "f \<noteq> int j" by auto
      with False show ?thesis by simp
    qed
  qed
  with step run show ?case by simp
qed

lemma enter_all_replicate:
  "0 \<le> i \<Longrightarrow> i < int (length (OS_nativeFunctionCallCount s)) \<Longrightarrow>
   enter_all True (replicate k i) s =
     Inr (s\<lparr>OS_nativeFunctionCallCount :=
              (OS_nativeFunctionCallCount s)
                [nat i := OS_nativeFunctionCallCount s ! nat i + of_nat k]\<rparr>)"
proof (induction k arbitrary: s)
  case 0
  then show ?case by simp
next
  case (Suc k)
  let ?cc = "OS_nativeFunctionCallCount s"
  let ?s1 = "s\<lparr>OS_nativeFunctionCallCount := ?cc[nat i := ?cc ! nat i + 1]\<rparr>"
  have step: "OS_NATIVE_ENTER True () () i s = Inr ?s1"
    using Suc.prems by (rule enter_valid)
  have "i < int (length (OS_nativeFunctionCallCount ?s1))"
    using Suc.prems by simp
  from Suc.IH [OF Suc.prems(1) this] step Suc.prems show ?case
    by (simp add: add.assoc)
qed

lemma count_after_initial:
  assumes i: "0 \<le> i" "i < int (length names)"
    and funcs: "\<forall>f \<in> set funcs. 0 \<le> f \<and> f < int (length names)"
  shows "count_after True funcs (initial_stats names) i =
           Inr (sint (of_nat (count_list funcs i) :: c_int))"
proof -
  let ?s = "initial_stats names"
  let ?n = "length names"
  have len: "length (OS_nativeFunctionCallCount ?s) = ?n"
    by (simp add: initial_stats_def)
  have "\<forall>f \<in> set funcs. 0 \<le> f \<and> f < int (length (OS_nativeFunctionCallCount ?s))"
    using funcs len by simp
  from enter_all_counts [OF this]
  have run: "enter_all True funcs ?s =
     Inr (?s\<lparr>OS_nativeFunctionCallCount :=
              map (\<lambda>j. OS_nativeFunctionCallCount ?s ! j + of_nat (count_list funcs (int j)))
                [0..<?n]\<rparr>)"
    by (simp only: len)
  from i have ni: "nat i < ?n" "int (nat i) = i" by simp_all
  then have "OS_nativeFunctionCallCount ?s ! nat i = 0"
    by (simp add: initial_stats_def)
  with run ni i show ?thesis
    by (simp add: count_after_def report_def initial_stats_def)
qed

section \<open>The claims\<close>

text \<open>
  C1. For a valid identifier \<open>i\<close> and a run of \<open>enter\<close> events on one thread, from the
  all-zero table, in which \<open>i\<close> occurs exactly \<open>k\<close> times (events for other valid
  identifiers may lie between them; there is no reset): \<open>report()[i].count\<close> is \<open>k\<close>.
  The counter is a 32-bit \<^verbatim>\<open>int\<close>, so this holds for \<open>k < 2 ^ 31\<close> and not for every
  \<open>k\<close>. The table of the header at hand has 285 entries; the statement is for a table
  of any length.
\<close>

theorem enter_counts_calls:
  assumes "0 \<le> i" and "i < int (length names)"
    and "\<forall>f \<in> set funcs. 0 \<le> f \<and> f < int (length names)"
    and "count_list funcs i = k" and "k < 2 ^ 31"
  shows "count_after True funcs (initial_stats names) i = Inr (int k)"
proof -
  have "count_after True funcs (initial_stats names) i = Inr (sint (of_nat k :: c_int))"
    using count_after_initial [OF assms(1,2,3)] assms(4) by simp
  with assms(5) show ?thesis
    by (simp only: sint_of_nat_small)
qed

text \<open>
  The run \<open>enter(3), enter(7), enter(3)\<close> on the table of the header counts 2 for
  identifier 3.
\<close>

theorem enter_counts_calls_witness:
  "count_after True [3, 7, 3] (initial_stats names_by_identifier) 3 = Inr 2"
  using enter_counts_calls [of 3 names_by_identifier "[3, 7, 3]" 2]
  by (simp add: length_names_by_identifier)

text \<open>
  At \<open>k = 2 ^ 31\<close> the count that is reported for identifier 0 is \<open>- 2 ^ 31\<close>, not
  \<open>2 ^ 31\<close>: an \<^verbatim>\<open>int\<close> cannot hold that value.
\<close>

theorem enter_counts_calls_overflow:
  "count_after True (replicate 2147483648 0) (initial_stats names_by_identifier) 0
     = Inr (- 2147483648) \<and>
   count_after True (replicate 2147483648 0) (initial_stats names_by_identifier) 0
     \<noteq> Inr 2147483648"
proof -
  have "count_after True (replicate 2147483648 0) (initial_stats names_by_identifier) 0
      = Inr (sint (of_nat (count_list (replicate 2147483648 (0::int)) 0) :: c_int))"
    by (rule count_after_initial) (simp_all add: length_names_by_identifier)
  then show ?thesis
    by (simp add: count_list_replicate_same)
qed

text \<open>
  C2. Under the precondition \<open>0 \<le> identifier < N\<close>, \<open>enter\<close> returns normally and the
  state it returns is the old one with the counter at \<open>identifier\<close> incremented by 1 and
  nothing else changed. Every constant of the header has a value in \<open>[0, 285)\<close>, so for
  a table of 285 counters the subscript of \<^verbatim>\<open>OS_NATIVE_ENTER\<close> is in bounds for each of
  them, and the out-of-range branch is not taken.
\<close>

theorem enter_increments_in_bounds:
  "(0 \<le> identifier \<and> identifier < int (length (OS_nativeFunctionCallCount s)) \<longrightarrow>
      OS_NATIVE_ENTER True env that identifier s =
        Inr (s\<lparr>OS_nativeFunctionCallCount :=
                 (OS_nativeFunctionCallCount s)
                   [nat identifier := OS_nativeFunctionCallCount s ! nat identifier + 1]\<rparr>))
   \<and> ((m, func) \<in> set FUNC_constants \<longrightarrow>
        0 \<le> func \<and> func < 285 \<and>
        (length (OS_nativeFunctionCallCount s) = 285 \<longrightarrow>
           OS_NATIVE_ENTER True env that func s =
             Inr (s\<lparr>OS_nativeFunctionCallCount :=
                      (OS_nativeFunctionCallCount s)
                        [nat func := OS_nativeFunctionCallCount s ! nat func + 1]\<rparr>)))"
proof -
  have range: "0 \<le> func \<and> func < 285" if "(m, func) \<in> set FUNC_constants"
  proof -
    from that have "func \<in> set (map snd FUNC_constants)" by force
    then show ?thesis by (auto simp: FUNC_values)
  qed
  show ?thesis
    using range by (simp add: enter_valid)
qed

text \<open>
  On the table of the header: \<open>enter(3)\<close>, and the constant of value 3.
\<close>

theorem enter_increments_in_bounds_witness:
  "OS_NATIVE_ENTER True () () 3 (initial_stats names_by_identifier) =
     Inr ((initial_stats names_by_identifier)
            \<lparr>OS_nativeFunctionCallCount := (replicate 285 0)[3 := 1]\<rparr>)
   \<and> (''PfExtentWideText_FUNC'', 3) \<in> set FUNC_constants"
proof -
  have m: "(''PfExtentWideText_FUNC'', 3) \<in> set FUNC_constants"
    by (simp add: FUNC_constants_def)
  show ?thesis
    using m enter_increments_in_bounds
      [of 3 "initial_stats names_by_identifier" "()" "()" "''PfExtentWideText_FUNC''" 3]
    by (simp add: initial_stats_def length_names_by_identifier)
qed

text \<open>
  C3. The values of the \<^verbatim>\<open>_FUNC\<close> constants, in the order of the file, are
  \<open>0, 1, \<dots>, 284\<close>: each value is the constant's position in the list, there are 285 of
  them, no value occurs twice, and the set of values is exactly the range \<open>0..284\<close>.
\<close>

theorem FUNC_identifiers_contiguous:
  "map snd FUNC_constants = map int [0..<285]
   \<and> length FUNC_constants = 285
   \<and> distinct (map snd FUNC_constants)
   \<and> snd ` set FUNC_constants = {0..<285}"
proof -
  have d: "distinct (map int [0..<285])"
    by (simp add: distinct_map del: upt_Suc upt_rec_numeral)
  have "snd ` set FUNC_constants = set (map snd FUNC_constants)" by simp
  also have "\<dots> = int ` {0..<285}" by (simp only: FUNC_values set_map set_upt)
  also have "\<dots> = {0..<285}" by (simp add: image_int_atLeastLessThan)
  finally show ?thesis
    using d by (simp only: FUNC_values FUNC_length simp_thms)
qed

text \<open>
  C4. The 285 entry-point names, listed by identifier \<open>0, 1, 2, \<dots>\<close>, are in strictly
  increasing byte-wise lexicographic order; and of any two constants, the one whose
  entry-point name is smaller has the smaller identifier.
\<close>

theorem FUNC_names_sorted:
  "sorted_wrt (<) names_by_identifier
   \<and> (\<forall>a b. a \<in> set FUNC_constants \<and> b \<in> set FUNC_constants
              \<and> func_name (fst a) < func_name (fst b) \<longrightarrow> snd a < snd b)"
proof -
  have pair: "snd a < snd b"
    if a: "a \<in> set FUNC_constants" and b: "b \<in> set FUNC_constants"
      and less: "func_name (fst a) < func_name (fst b)" for a b
  proof -
    from a obtain p where p: "p < 285" "a = FUNC_constants ! p"
      by (auto simp: in_set_conv_nth FUNC_length)
    from b obtain q where q: "q < 285" "b = FUNC_constants ! q"
      by (auto simp: in_set_conv_nth FUNC_length)
    have name: "names_by_identifier ! r = func_name (fst (FUNC_constants ! r))"
      if "r < 285" for r
      using that by (simp add: names_by_identifier_eq FUNC_length)
    have "p < q"
    proof (rule ccontr)
      assume "\<not> p < q"
      then consider "q < p" | "q = p" by linarith
      then show False
      proof cases
        case 1
        with names_sorted_wrt p(1)
        have "names_by_identifier ! q < names_by_identifier ! p"
          by (simp add: sorted_wrt_iff_nth_less length_names_by_identifier)
        with less p q show False by (simp add: name)
      next
        case 2
        with less p q show False by simp
      qed
    qed
    with p q show ?thesis by (simp add: FUNC_nth_value)
  qed
  from names_sorted_wrt pair show ?thesis by blast
qed

text \<open>
  Constants 33 and 34, the first of which names a prefix of the second.
\<close>

theorem FUNC_names_sorted_witness:
  "(''PgGetVideoMode_FUNC'', 33) \<in> set FUNC_constants
   \<and> (''PgGetVideoModeInfo_FUNC'', 34) \<in> set FUNC_constants
   \<and> func_name ''PgGetVideoMode_FUNC'' < func_name ''PgGetVideoModeInfo_FUNC''
   \<and> snd (''PgGetVideoMode_FUNC'', 33 :: int) < snd (''PgGetVideoModeInfo_FUNC'', 34 :: int)
   \<and> sorted_wrt (<) names_by_identifier"
proof -
  have a: "(''PgGetVideoMode_FUNC'', 33) \<in> set FUNC_constants"
    by (simp add: FUNC_constants_def)
  have b: "(''PgGetVideoModeInfo_FUNC'', 34) \<in> set FUNC_constants"
    by (simp add: FUNC_constants_def)
  have n: "func_name ''PgGetVideoMode_FUNC'' < func_name ''PgGetVideoModeInfo_FUNC''"
    by (simp add: func_name_def)
  from FUNC_names_sorted have s: "sorted_wrt (<) names_by_identifier"
    and "(''PgGetVideoMode_FUNC'', 33) \<in> set FUNC_constants
          \<and> (''PgGetVideoModeInfo_FUNC'', 34) \<in> set FUNC_constants
          \<and> func_name (fst (''PgGetVideoMode_FUNC'', 33 :: int))
              < func_name (fst (''PgGetVideoModeInfo_FUNC'', 34 :: int))
        \<longrightarrow> snd (''PgGetVideoMode_FUNC'', 33 :: int) < snd (''PgGetVideoModeInfo_FUNC'', 34 :: int)"
    by blast+
  with a b n show ?thesis by simp
qed

text \<open>
  C5. The claim has unsigned counters whose values are never negative. The header
  declares \<^verbatim>\<open>int OS_nativeFunctionCallCount[]\<close>: the counters are signed. What holds is:
  every counter is 0 at process start; an in-range \<open>enter\<close> returns normally, whatever
  the counter holds, and adds 1 modulo \<open>2 ^ 32\<close> to the counter's bit pattern; read as
  the \<^verbatim>\<open>int\<close> it is, the counter grows by 1, except at \<open>2 ^ 31 - 1\<close>, from where it
  goes to \<open>- 2 ^ 31\<close>.
\<close>

theorem counters_signed_wrap:
  "OS_nativeFunctionCallCount (initial_stats names) = replicate (length names) 0
   \<and> (0 \<le> i \<and> i < int (length (OS_nativeFunctionCallCount s)) \<longrightarrow>
        (\<exists>s'. OS_NATIVE_ENTER True env that i s = Inr s'
           \<and> sint (OS_nativeFunctionCallCount s' ! nat i) =
               (if sint (OS_nativeFunctionCallCount s ! nat i) = 2 ^ 31 - 1 then - (2 ^ 31)
                else sint (OS_nativeFunctionCallCount s ! nat i) + 1)
           \<and> uint (OS_nativeFunctionCallCount s' ! nat i) =
               (uint (OS_nativeFunctionCallCount s ! nat i) + 1) mod 2 ^ 32))"
proof -
  have "\<exists>s'. OS_NATIVE_ENTER True env that i s = Inr s'
           \<and> sint (OS_nativeFunctionCallCount s' ! nat i) =
               (if sint (OS_nativeFunctionCallCount s ! nat i) = 2 ^ 31 - 1 then - (2 ^ 31)
                else sint (OS_nativeFunctionCallCount s ! nat i) + 1)
           \<and> uint (OS_nativeFunctionCallCount s' ! nat i) =
               (uint (OS_nativeFunctionCallCount s ! nat i) + 1) mod 2 ^ 32"
    if "0 \<le> i" "i < int (length (OS_nativeFunctionCallCount s))"
  proof -
    let ?cc = "OS_nativeFunctionCallCount s"
    let ?s' = "s\<lparr>OS_nativeFunctionCallCount := ?cc[nat i := ?cc ! nat i + 1]\<rparr>"
    from that have "nat i < length ?cc" by simp
    then have new: "OS_nativeFunctionCallCount ?s' ! nat i = ?cc ! nat i + 1" by simp
    have "OS_NATIVE_ENTER True env that i s = Inr ?s'"
      using that by (rule enter_valid)
    moreover have "sint (OS_nativeFunctionCallCount ?s' ! nat i) =
               (if sint (?cc ! nat i) = 2 ^ 31 - 1 then - (2 ^ 31) else sint (?cc ! nat i) + 1)"
      by (simp only: new sint_incr)
    moreover have "uint (OS_nativeFunctionCallCount ?s' ! nat i) = (uint (?cc ! nat i) + 1) mod 2 ^ 32"
      by (simp only: new uint_incr)
    ultimately show ?thesis by blast
  qed
  then show ?thesis by (simp add: initial_stats_def)
qed

text \<open>
  A counter at \<^verbatim>\<open>INT_MAX\<close>, incremented.
\<close>

theorem counters_signed_wrap_witness:
  "\<exists>s'. OS_NATIVE_ENTER True () () 0
           \<lparr>OS_nativeFunctionCallCount = [2147483647], OS_nativeFunctionNames = [''f'']\<rparr> = Inr s'
        \<and> sint (OS_nativeFunctionCallCount s' ! 0) = - 2147483648
        \<and> uint (OS_nativeFunctionCallCount s' ! 0) = 2147483648"
  using counters_signed_wrap [of "[''f'']" 0
      "\<lparr>OS_nativeFunctionCallCount = [2147483647], OS_nativeFunctionNames = [''f'']\<rparr>" "()" "()"]
  by simp

text \<open>
  From the all-zero table of the header, \<open>2 ^ 31\<close> events for identifier 284 leave its
  counter with the bit pattern \<open>2 ^ 31\<close>, which as an \<^verbatim>\<open>int\<close> is negative; the count
  that is reported is \<open>- 2 ^ 31\<close>.
\<close>

theorem counter_negative_after_wrap:
  "enter_all True (replicate 2147483648 284) (initial_stats names_by_identifier) =
     Inr ((initial_stats names_by_identifier)
            \<lparr>OS_nativeFunctionCallCount := (replicate 285 0)[284 := 2147483648]\<rparr>)
   \<and> sint (2147483648 :: c_int) = - 2147483648
   \<and> count_after True (replicate 2147483648 284) (initial_stats names_by_identifier) 284
       = Inr (- 2147483648)"
proof -
  have len: "length (OS_nativeFunctionCallCount (initial_stats names_by_identifier)) = 285"
    by (simp add: initial_stats_def length_names_by_identifier)
  have "enter_all True (replicate 2147483648 284) (initial_stats names_by_identifier) =
     Inr ((initial_stats names_by_identifier)
            \<lparr>OS_nativeFunctionCallCount :=
               (OS_nativeFunctionCallCount (initial_stats names_by_identifier))
                 [nat 284 := OS_nativeFunctionCallCount (initial_stats names_by_identifier) ! nat 284
                               + of_nat 2147483648]\<rparr>)"
    by (rule enter_all_replicate) (simp_all add: len)
  then have run: "enter_all True (replicate 2147483648 284) (initial_stats names_by_identifier) =
     Inr ((initial_stats names_by_identifier)
            \<lparr>OS_nativeFunctionCallCount := (replicate 285 0)[284 := 2147483648]\<rparr>)"
    by (simp add: initial_stats_def length_names_by_identifier)
  have "count_after True (replicate 2147483648 284) (initial_stats names_by_identifier) 284
      = Inr (sint (of_nat (count_list (replicate 2147483648 (284::int)) 284) :: c_int))"
    by (rule count_after_initial) (simp_all add: length_names_by_identifier)
  then have "count_after True (replicate 2147483648 284) (initial_stats names_by_identifier) 284
       = Inr (- 2147483648)"
     by (simp add: count_list_replicate_same)
  with run show ?thesis by simp
qed

text \<open>
  C6. For valid identifiers \<open>i \<noteq> j\<close> and any state, in either build configuration:
  \<open>enter(i)\<close> returns normally and leaves the counter at \<open>j\<close>, and entry \<open>j\<close> of the
  report, as they were.
\<close>

theorem enter_frame:
  assumes "0 \<le> i" and "i < int (length (OS_nativeFunctionCallCount s))"
    and "0 \<le> j" and "j < int (length (OS_nativeFunctionCallCount s))"
    and "i \<noteq> j"
  shows "\<exists>s'. OS_NATIVE_ENTER native_stats env that i s = Inr s'
           \<and> OS_nativeFunctionCallCount s' ! nat j = OS_nativeFunctionCallCount s ! nat j
           \<and> report s' ! nat j = report s ! nat j"
proof -
  from assms have ne: "nat i \<noteq> nat j" by simp
  show ?thesis
  proof (cases native_stats)
    case True
    with assms(1,2) ne show ?thesis
      by (simp add: OS_NATIVE_ENTER_def report_update)
  next
    case False
    then show ?thesis
      by (simp add: OS_NATIVE_ENTER_def)
  qed
qed

text \<open>
  \<open>enter(1)\<close> on a table of three entries leaves entry 2 alone.
\<close>

theorem enter_frame_witness:
  "\<exists>s'. OS_NATIVE_ENTER True () () 1 (initial_stats [''Alpha'', ''Beta'', ''Gamma'']) = Inr s'
        \<and> OS_nativeFunctionCallCount s' ! 2 = 0
        \<and> report s' ! 2 = (''Gamma'', 0)"
  using enter_frame [of 1 "initial_stats [''Alpha'', ''Beta'', ''Gamma'']" 2 True "()" "()"]
  by (simp add: initial_stats_def report_def)

text \<open>
  C7. \<^verbatim>\<open>OS_NATIVE_EXIT\<close> expands to nothing whether \<^verbatim>\<open>NATIVE_STATS\<close> is defined or
  not: for every state and every argument, the state after it is the state before it.
\<close>

theorem exit_noop: "OS_NATIVE_EXIT native_stats env that func s = s"
  by (simp add: OS_NATIVE_EXIT_def)

text \<open>
  C8. Without \<^verbatim>\<open>NATIVE_STATS\<close>, both macros expand to nothing: for every argument,
  in range or not, and every state, the state after \<^verbatim>\<open>OS_NATIVE_ENTER\<close> or
  \<^verbatim>\<open>OS_NATIVE_EXIT\<close> is the state before it.
\<close>

theorem disabled_noop:
  "OS_NATIVE_ENTER False env that func s = Inr s
   \<and> OS_NATIVE_EXIT False env that func s = s"
  by (simp add: OS_NATIVE_ENTER_def OS_NATIVE_EXIT_def)

text \<open>
  C9. The spec's example: the entry points \<open>Alpha\<close>, \<open>Beta\<close>, \<open>Gamma\<close> are numbered
  0, 1, 2; from the all-zero table, two \<open>enter\<close> events for \<open>Beta\<close>'s identifier and
  none for the others make the report \<open>[("Alpha",0), ("Beta",2), ("Gamma",0)]\<close>.
\<close>

theorem three_entry_example:
  "assign_identifiers [''Alpha'', ''Beta'', ''Gamma'']
     = [(''Alpha'', 0), (''Beta'', 1), (''Gamma'', 2)]
   \<and> map_of (assign_identifiers [''Alpha'', ''Beta'', ''Gamma'']) ''Beta'' = Some 1
   \<and> map_sum id report
       (enter_all True [1, 1]
          (initial_stats (map fst (assign_identifiers [''Alpha'', ''Beta'', ''Gamma'']))))
     = Inr [(''Alpha'', 0), (''Beta'', 2), (''Gamma'', 0)]"
proof -
  have a: "assign_identifiers [''Alpha'', ''Beta'', ''Gamma'']
     = [(''Alpha'', 0), (''Beta'', 1), (''Gamma'', 2)]"
    by (simp add: assign_identifiers_def upt_rec)
  show ?thesis
    by (simp only: a) (simp add: initial_stats_def OS_NATIVE_ENTER_def report_def)
qed

text \<open>
  C10. With \<^verbatim>\<open>NATIVE_STATS\<close> defined, the counter table that \<^verbatim>\<open>OS_NATIVE_ENTER\<close> leaves
  is determined by \<open>func\<close> and the counter table it starts from: two expansions with the
  same \<open>func\<close>, from two states that agree on the counter table (their name tables may
  differ), with any \<open>env\<close> and \<open>that\<close> (of any types), end with the same counter table,
  or both with an out-of-range subscript; on one and the same state they give the same
  result. The counter table that is left is the one below, a function of \<open>func\<close> and the
  old table alone. In either configuration neither macro changes the name table:
  \<^verbatim>\<open>OS_NATIVE_ENTER\<close> returns a state with the name table it was given, in every case but
  that of an out-of-range subscript with \<^verbatim>\<open>NATIVE_STATS\<close> defined (undefined behaviour
  in C, \<open>OutOfBounds\<close> here, with no state to speak of), and \<^verbatim>\<open>OS_NATIVE_EXIT\<close> always
  does.
\<close>

theorem enter_ignores_env:
  "(OS_nativeFunctionCallCount sa = OS_nativeFunctionCallCount sb \<longrightarrow>
      map_sum id OS_nativeFunctionCallCount (OS_NATIVE_ENTER True enva thata func sa)
        = map_sum id OS_nativeFunctionCallCount (OS_NATIVE_ENTER True envb thatb func sb))
   \<and> OS_NATIVE_ENTER True enva thata func s = OS_NATIVE_ENTER True envb thatb func s
   \<and> map_sum id OS_nativeFunctionCallCount (OS_NATIVE_ENTER True env that func s)
        = (if 0 \<le> func \<and> func < int (length (OS_nativeFunctionCallCount s))
           then Inr ((OS_nativeFunctionCallCount s)
                       [nat func := OS_nativeFunctionCallCount s ! nat func + 1])
           else Inl OutOfBounds)
   \<and> map_sum id OS_nativeFunctionNames (OS_NATIVE_ENTER native_stats env that func s)
        = (if native_stats
              \<and> \<not> (0 \<le> func \<and> func < int (length (OS_nativeFunctionCallCount s)))
           then Inl OutOfBounds
           else Inr (OS_nativeFunctionNames s))
   \<and> OS_nativeFunctionNames (OS_NATIVE_EXIT native_stats env that func s)
        = OS_nativeFunctionNames s"
proof -
  have counts: "map_sum id OS_nativeFunctionCallCount (OS_NATIVE_ENTER True e t func u)
        = (if 0 \<le> func \<and> func < int (length (OS_nativeFunctionCallCount u))
           then Inr ((OS_nativeFunctionCallCount u)
                       [nat func := OS_nativeFunctionCallCount u ! nat func + 1])
           else Inl OutOfBounds)" for e :: 'e and t :: 't and u
    by (simp add: OS_NATIVE_ENTER_def)
  have two: "map_sum id OS_nativeFunctionCallCount (OS_NATIVE_ENTER True enva thata func sa)
        = map_sum id OS_nativeFunctionCallCount (OS_NATIVE_ENTER True envb thatb func sb)"
    if "OS_nativeFunctionCallCount sa = OS_nativeFunctionCallCount sb"
    using that by (simp add: OS_NATIVE_ENTER_def)
  have same: "OS_NATIVE_ENTER True enva thata func s = OS_NATIVE_ENTER True envb thatb func s"
    by (simp add: OS_NATIVE_ENTER_def)
  have names: "map_sum id OS_nativeFunctionNames (OS_NATIVE_ENTER native_stats env that func s)
        = (if native_stats
              \<and> \<not> (0 \<le> func \<and> func < int (length (OS_nativeFunctionCallCount s)))
           then Inl OutOfBounds
           else Inr (OS_nativeFunctionNames s))"
    by (simp add: OS_NATIVE_ENTER_def)
  have exit: "OS_nativeFunctionNames (OS_NATIVE_EXIT native_stats env that func s)
        = OS_nativeFunctionNames s"
    by (simp add: OS_NATIVE_EXIT_def)
  from two same counts [of env that s] names exit show ?thesis
    by (intro conjI impI)
qed

text \<open>
  Two expansions for identifier 1, with different \<open>env\<close> and \<open>that\<close>, from two states
  with the same counters and different name tables: both leave the counters \<open>[0, 1, 0]\<close>,
  and each state keeps its own names.
\<close>

theorem enter_ignores_env_witness:
  "OS_nativeFunctionCallCount (initial_stats [''Alpha'', ''Beta'', ''Gamma''])
     = OS_nativeFunctionCallCount
         \<lparr>OS_nativeFunctionCallCount = [0, 0, 0], OS_nativeFunctionNames = [''X'', ''Y'', ''Z'']\<rparr>
   \<and> map_sum id OS_nativeFunctionCallCount
        (OS_NATIVE_ENTER True (1 :: nat) ''this'' 1 (initial_stats [''Alpha'', ''Beta'', ''Gamma'']))
       = Inr [0, 1, 0]
   \<and> map_sum id OS_nativeFunctionCallCount
        (OS_NATIVE_ENTER True (2 :: nat) ''that'' 1
           \<lparr>OS_nativeFunctionCallCount = [0, 0, 0], OS_nativeFunctionNames = [''X'', ''Y'', ''Z'']\<rparr>)
       = Inr [0, 1, 0]
   \<and> map_sum id OS_nativeFunctionNames
        (OS_NATIVE_ENTER True (1 :: nat) ''this'' 1 (initial_stats [''Alpha'', ''Beta'', ''Gamma'']))
       = Inr [''Alpha'', ''Beta'', ''Gamma'']"
proof -
  let ?s1 = "initial_stats [''Alpha'', ''Beta'', ''Gamma'']"
  let ?s2 = "\<lparr>OS_nativeFunctionCallCount = [0, 0, 0], OS_nativeFunctionNames = [''X'', ''Y'', ''Z'']\<rparr>"
  have eq: "OS_nativeFunctionCallCount ?s1 = OS_nativeFunctionCallCount ?s2"
    by (simp add: initial_stats_def)
  from eq enter_ignores_env
    [where sa = ?s1 and sb = ?s2 and enva = "1 :: nat" and thata = "''this''" and func = 1
       and envb = "2 :: nat" and thatb = "''that''" and s = ?s1 and env = "1 :: nat"
       and that = "''this''" and native_stats = True]
  show ?thesis
    by (simp add: initial_stats_def OS_NATIVE_ENTER_def)
qed

end
